theory Spec2Isabelle
  imports Main "HOL-Library.Word" "HOL-Library.Sublist"
begin

section \<open>The annotation editor: drafts, tags, saving and the keyboard shortcut\<close>

text \<open>
  A shallow embedding of \<^verbatim>\<open>src/sidebar/components/annotation-editor.js\<close>.
  The component \<^verbatim>\<open>AnnotationEditor\<close> reads the draft of an annotation from the
  store and, when there is one, builds six handlers that close over that draft:
  \<^verbatim>\<open>onEditTags\<close>, \<^verbatim>\<open>onAddTag\<close>, \<^verbatim>\<open>onRemoveTag\<close>, \<^verbatim>\<open>onEditText\<close>,
  \<^verbatim>\<open>onSave\<close> and \<^verbatim>\<open>onKeyDown\<close>. In the model every handler takes the draft it
  closes over as its first argument, and the world it acts on (the draft store and the
  trace of calls made to the injected services and to the key event) as its last one,
  returning the world it leaves behind.
\<close>

subsection \<open>JavaScript values\<close>

text \<open>
  A JavaScript string is a sequence of UTF-16 code units; \<^verbatim>\<open>===\<close> on strings and
  \<^verbatim>\<open>length\<close> work on code units, so a string is a list of 16-bit words.
\<close>

type_synonym jsstring = "16 word list"

text \<open>An ASCII literal as a JavaScript string.\<close>

definition js :: "string \<Rightarrow> jsstring" where
  "js s = map of_char s"

text \<open>
  \<^verbatim>\<open>String.prototype.trim\<close> removes, from both ends, the code units that ECMAScript
  calls WhiteSpace (TAB, VT, FF, ZWNBSP and the Unicode space separators) or
  LineTerminator (LF, CR, LS, PS). All of them lie in the basic multilingual plane, so
  the test is on single code units.
\<close>

definition isWhiteSpace :: "16 word \<Rightarrow> bool" where
  "isWhiteSpace c \<longleftrightarrow>
     c = 0x0009 \<or> c = 0x000A \<or> c = 0x000B \<or> c = 0x000C \<or> c = 0x000D \<or> c = 0x0020 \<or>
     c = 0x00A0 \<or> c = 0x1680 \<or> (0x2000 \<le> c \<and> c \<le> 0x200A) \<or> c = 0x2028 \<or>
     c = 0x2029 \<or> c = 0x202F \<or> c = 0x205F \<or> c = 0x3000 \<or> c = 0xFEFF"

definition trimStart :: "jsstring \<Rightarrow> jsstring" where
  "trimStart s = dropWhile isWhiteSpace s"

definition trimEnd :: "jsstring \<Rightarrow> jsstring" where
  "trimEnd s = rev (dropWhile isWhiteSpace (rev s))"

definition trim :: "jsstring \<Rightarrow> jsstring" where
  "trim s = trimEnd (trimStart s)"

text \<open>
  \<^verbatim>\<open>Array.prototype.indexOf\<close>: the index of the first element strictly equal to the
  one searched, or \<open>-1\<close>. The arrays here hold strings, on which strict equality is
  equality of the code unit sequences.
\<close>

fun indexOfFrom :: "int \<Rightarrow> 'a list \<Rightarrow> 'a \<Rightarrow> int" where
  "indexOfFrom k [] x = -1"
| "indexOfFrom k (y # ys) x = (if y = x then k else indexOfFrom (k + 1) ys x)"

definition indexOf :: "'a list \<Rightarrow> 'a \<Rightarrow> int" where
  "indexOf xs x = indexOfFrom 0 xs x"

text \<open>
  \<^verbatim>\<open>Array.prototype.splice(start, deleteCount)\<close> with no items to insert: a negative
  \<open>start\<close> counts from the end, and both arguments are clamped to the array. The model
  returns the array that is left.
\<close>

definition splice :: "'a list \<Rightarrow> int \<Rightarrow> int \<Rightarrow> 'a list" where
  "splice xs start deleteCount =
     (let len = int (length xs);
          actualStart = (if start < 0 then max (len + start) 0 else min start len);
          actualDeleteCount = min (max deleteCount 0) (len - actualStart)
      in take (nat actualStart) xs @ drop (nat (actualStart + actualDeleteCount)) xs)"

text \<open>
  Truthiness of a value that is a string or absent (\<^verbatim>\<open>undefined\<close>, \<^verbatim>\<open>null\<close>):
  only a string of at least one code unit is truthy.
\<close>

definition truthy :: "jsstring option \<Rightarrow> bool" where
  "truthy v = (case v of None \<Rightarrow> False | Some s \<Rightarrow> length s \<noteq> 0)"

subsection \<open>Data model\<close>

type_synonym annotation_ref = nat
type_synonym group_id = nat

text \<open>
  The annotation under edit: its identity and the group it belongs to. Its other
  attributes are not read by the editor.
\<close>

record Annotation =
  ann_id :: annotation_ref
  ann_group :: group_id

text \<open>
  A draft: the identity of its annotation, the text (which may be absent), the tags in
  insertion order, and the privacy flag.
\<close>

record Draft =
  annotation :: annotation_ref
  "text" :: "jsstring option"
  tags :: "jsstring list"
  isPrivate :: bool

record Group =
  group_type :: jsstring

text \<open>The record \<^verbatim>\<open>{ text: tag }\<close> handed to the tag-suggestion service.\<close>

datatype TagRecord = TagRecord jsstring

text \<open>Settlement of the promise returned by an asynchronous call.\<close>

datatype settled = Fulfilled | Rejected jsstring

text \<open>
  The calls that leave the component, in the order they are made:
  \<^verbatim>\<open>tagsService.store(records)\<close>, \<^verbatim>\<open>annotationsService.save(annotation)\<close>,
  \<^verbatim>\<open>toastMessenger.error(message)\<close>, \<^verbatim>\<open>event.stopPropagation()\<close> and
  \<^verbatim>\<open>event.preventDefault()\<close>.
\<close>

datatype effect =
    TagsStore "TagRecord list"
  | AnnotationsSave Annotation
  | ToastError jsstring
  | StopPropagation
  | PreventDefault

record world =
  drafts :: "annotation_ref \<rightharpoonup> Draft"
  groups :: "group_id \<rightharpoonup> Group"
  effects :: "effect list"

record KeyboardEvent =
  key :: jsstring
  metaKey :: bool
  ctrlKey :: bool

subsection \<open>The draft store\<close>

text \<open>
  The store is reached through \<^verbatim>\<open>useStore\<close>, imported from
  \<^verbatim>\<open>../store/use-store\<close>; its selectors and its action are not part of the source
  at hand. It holds at most one draft per annotation identity.
\<close>

text \<open>
  Modelled from the spec: \<^verbatim>\<open>getDraft(annotation)\<close> returns the current draft for the
  given annotation identity, or the absent value if none exists.
\<close>

definition getDraft :: "world \<Rightarrow> Annotation \<Rightarrow> Draft option" where
  "getDraft w a = drafts w (ann_id a)"

text \<open>
  Modelled from the spec: \<^verbatim>\<open>getGroup(groupId)\<close> returns the group of that id, or
  the absent value.
\<close>

definition getGroup :: "world \<Rightarrow> group_id \<Rightarrow> Group option" where
  "getGroup w g = groups w g"

text \<open>
  Modelled from the spec: \<^verbatim>\<open>createDraft(annotation, overrides)\<close> establishes or
  replaces the draft of the annotation, taking the text, the tags and the privacy flag
  from \<open>overrides\<close>, whole fields at a time. Any draft already held for the same
  annotation identity is overwritten.
\<close>

definition createDraft :: "annotation_ref \<Rightarrow> Draft \<Rightarrow> world \<Rightarrow> world" where
  "createDraft r changes w =
     w\<lparr>drafts := (drafts w)(r \<mapsto>
          \<lparr>annotation = r, text = text changes, tags = tags changes,
           isPrivate = isPrivate changes\<rparr>)\<rparr>"

text \<open>A call to an injected service or to the event is appended to the trace.\<close>

definition emit :: "effect \<Rightarrow> world \<Rightarrow> world" where
  "emit e w = w\<lparr>effects := effects w @ [e]\<rparr>"

subsection \<open>The handlers\<close>

text \<open>\<^verbatim>\<open>const isEmpty = !text && !tags.length\<close>\<close>

definition isEmpty :: "Draft \<Rightarrow> bool" where
  "isEmpty d \<longleftrightarrow> \<not> truthy (text d) \<and> \<not> (length (tags d) \<noteq> 0)"

text \<open>\<^verbatim>\<open>createDraft(draft.annotation, { ...draft, tags })\<close>\<close>

definition onEditTags :: "Draft \<Rightarrow> jsstring list \<Rightarrow> world \<Rightarrow> world" where
  "onEditTags d tags' w = createDraft (annotation d) (d\<lparr>tags := tags'\<rparr>) w"

text \<open>\<^verbatim>\<open>createDraft(draft.annotation, { ...draft, text })\<close>\<close>

definition onEditText :: "Draft \<Rightarrow> jsstring option \<Rightarrow> world \<Rightarrow> world" where
  "onEditText d text' w = createDraft (annotation d) (d\<lparr>text := text'\<rparr>) w"

text \<open>
  Verify \<open>newTag\<close> has content and is not a duplicate; add the tag. The result is
  \<open>True\<close> if the tag is added.
\<close>

definition onAddTag :: "Draft \<Rightarrow> jsstring \<Rightarrow> world \<Rightarrow> bool \<times> world" where
  "onAddTag d newTag w =
     (let value = trim newTag in
      if length value = 0 then (False, w)
      else if indexOf (tags d) value \<ge> 0 then (False, w)
      else
        let tagList = tags d @ [value];
            w1 = emit (TagsStore (map TagRecord tagList)) w;
            w2 = onEditTags d tagList w1
        in (True, w2))"

text \<open>Remove a tag from the annotation. The result is \<open>True\<close> if the tag was there.\<close>

definition onRemoveTag :: "Draft \<Rightarrow> jsstring \<Rightarrow> world \<Rightarrow> bool \<times> world" where
  "onRemoveTag d tag w =
     (let newTagList = tags d;
          index = indexOf newTagList tag
      in if index \<ge> 0
         then (True, onEditTags d (splice newTagList index 1) w)
         else (False, w))"

text \<open>
  \<^verbatim>\<open>onSave\<close> is asynchronous. If the tag editor's input field holds content that
  has not been committed as a tag, it is added as a tag first; the result of
  \<^verbatim>\<open>onAddTag\<close> is dropped. Then the annotation is saved, and a rejection of the save
  (or an exception it throws) is caught and reported as a toast message. The argument
  \<open>tagInput\<close> is \<^verbatim>\<open>tagInputRef?.current?.value\<close>: \<open>None\<close> when no input element
  is mounted. The argument \<open>save\<close> is the settlement of the promise that
  \<^verbatim>\<open>annotationsService.save\<close> returns for an annotation. The first component of the
  result is the settlement of the promise that \<^verbatim>\<open>onSave\<close> itself returns. The model
  runs the handler to its end in one step: no other event is taken between the save
  call and its settlement.
\<close>

definition onSave ::
  "Draft \<Rightarrow> Annotation \<Rightarrow> (Annotation \<Rightarrow> settled) \<Rightarrow> jsstring option \<Rightarrow> world
     \<Rightarrow> settled \<times> world" where
  "onSave d a save tagInput w =
     (let w1 = (case tagInput of
                  None \<Rightarrow> w
                | Some v \<Rightarrow> if truthy (Some v) then snd (onAddTag d v w) else w);
          w2 = emit (AnnotationsSave a) w1
      in case save a of
           Fulfilled \<Rightarrow> (Fulfilled, w2)
         | Rejected err \<Rightarrow> (Fulfilled, emit (ToastError (js ''Saving annotation failed'')) w2))"

text \<open>
  Allow saving of the annotation by pressing CMD/CTRL-Enter. The function
  \<^verbatim>\<open>normalizeKeyName\<close> is imported from \<^verbatim>\<open>shared/browser-compatibility-utils\<close>
  and is a parameter here. The promise returned by \<^verbatim>\<open>onSave\<close> is dropped.
\<close>

definition onKeyDown ::
  "Draft \<Rightarrow> Annotation \<Rightarrow> (Annotation \<Rightarrow> settled) \<Rightarrow> jsstring option
     \<Rightarrow> (jsstring \<Rightarrow> jsstring) \<Rightarrow> KeyboardEvent \<Rightarrow> world \<Rightarrow> world" where
  "onKeyDown d a save tagInput normalizeKeyName event w =
     (let key' = normalizeKeyName (key event) in
      if isEmpty d then w
      else if (metaKey event \<or> ctrlKey event) \<and> key' = js ''Enter''
      then
        let w1 = emit StopPropagation w;
            w2 = emit PreventDefault w1
        in snd (onSave d a save tagInput w2)
      else w)"

subsection \<open>The component\<close>

text \<open>
  What the component renders: the text given to the markdown editor, the tag list given
  to the tag editor, whether the publish control is disabled, and whether the license
  notice is shown. Theming (\<^verbatim>\<open>applyTheme\<close>) only styles the text and is left out.
  The result \<open>None\<close> is the \<^verbatim>\<open>null\<close> that the component returns when it renders
  nothing.
\<close>

record EditorView =
  view_text :: "jsstring option"
  view_tagList :: "jsstring list"
  view_isDisabled :: bool
  view_shouldShowLicense :: bool

definition AnnotationEditor :: "Annotation \<Rightarrow> world \<Rightarrow> EditorView option" where
  "AnnotationEditor a w =
     (let draft = getDraft w a;
          group = getGroup w (ann_group a)
      in case draft of
           None \<Rightarrow> None
         | Some d \<Rightarrow>
             Some \<lparr>view_text = text d,
                   view_tagList = tags d,
                   view_isDisabled = isEmpty d,
                   view_shouldShowLicense =
                     (\<not> isPrivate d \<and>
                      (case group of
                         None \<Rightarrow> False
                       | Some g \<Rightarrow> group_type g \<noteq> js ''private''))\<rparr>)"

subsection \<open>Observations on the trace\<close>

text \<open>The messages given to \<^verbatim>\<open>toastMessenger.error\<close>, in order.\<close>

fun notifications :: "effect list \<Rightarrow> jsstring list" where
  "notifications [] = []"
| "notifications (ToastError m # es) = m # notifications es"
| "notifications (e # es) = notifications es"

text \<open>The annotations given to \<^verbatim>\<open>annotationsService.save\<close>, in order.\<close>

fun saveCalls :: "effect list \<Rightarrow> Annotation list" where
  "saveCalls [] = []"
| "saveCalls (AnnotationsSave a # es) = a # saveCalls es"
| "saveCalls (e # es) = saveCalls es"

text \<open>The record lists given to \<^verbatim>\<open>tagsService.store\<close>, in order.\<close>

fun storeCalls :: "effect list \<Rightarrow> TagRecord list list" where
  "storeCalls [] = []"
| "storeCalls (TagsStore r # es) = r # storeCalls es"
| "storeCalls (e # es) = storeCalls es"

subsection \<open>Example data\<close>

text \<open>
  A draft of annotation 1 with the given text and tags, and the store that holds just
  that draft, with an empty trace.
\<close>

definition exampleAnnotation :: Annotation where
  "exampleAnnotation = \<lparr>ann_id = 1, ann_group = 1\<rparr>"

definition exampleDraft :: "jsstring option \<Rightarrow> jsstring list \<Rightarrow> Draft" where
  "exampleDraft t ts = \<lparr>annotation = 1, text = t, tags = ts, isPrivate = False\<rparr>"

definition exampleWorld :: "Draft \<Rightarrow> world" where
  "exampleWorld d = \<lparr>drafts = [annotation d \<mapsto> d], groups = Map.empty, effects = []\<rparr>"

text \<open>The store before any draft has been created.\<close>

definition emptyWorld :: world where
  "emptyWorld = \<lparr>drafts = Map.empty, groups = Map.empty, effects = []\<rparr>"

text \<open>A save service whose promise rejects, and one whose promise is fulfilled.\<close>

definition rejectingSave :: "Annotation \<Rightarrow> settled" where
  "rejectingSave a = Rejected (js ''offline'')"

definition fulfillingSave :: "Annotation \<Rightarrow> settled" where
  "fulfillingSave a = Fulfilled"

text \<open>A key normalizer that leaves every key name as it is.\<close>

definition identityKeyName :: "jsstring \<Rightarrow> jsstring" where
  "identityKeyName k = k"

definition ctrlEnter :: KeyboardEvent where
  "ctrlEnter = \<lparr>key = js ''Enter'', metaKey = False, ctrlKey = True\<rparr>"

definition plainEnter :: KeyboardEvent where
  "plainEnter = \<lparr>key = js ''Enter'', metaKey = False, ctrlKey = False\<rparr>"

lemmas example_defs = exampleAnnotation_def exampleDraft_def exampleWorld_def
lemmas env_defs = rejectingSave_def fulfillingSave_def emptyWorld_def identityKeyName_def
  ctrlEnter_def plainEnter_def
lemmas trim_defs = trim_def trimStart_def trimEnd_def isWhiteSpace_def js_def

section \<open>Properties\<close>

subsection \<open>Trimming\<close>

lemma rev_dropWhile_split:
  "rev (dropWhile P (rev xs)) @ rev (takeWhile P (rev xs)) = xs"
proof -
  have "rev (dropWhile P (rev xs)) @ rev (takeWhile P (rev xs)) =
        rev (takeWhile P (rev xs) @ dropWhile P (rev xs))"
    by (simp only: rev_append)
  also have "\<dots> = rev (rev xs)"
    by (simp only: takeWhile_dropWhile_id)
  also have "\<dots> = xs"
    by (simp only: rev_rev_ident)
  finally show ?thesis .
qed

text \<open>
  \<open>trim s\<close> is \<open>s\<close> without a leading and a trailing run of white space, and what is
  left neither starts nor ends with white space.
\<close>

lemma trim_decomposition:
  "\<exists>pre post. s = pre @ trim s @ post \<and> (\<forall>c\<in>set pre. isWhiteSpace c) \<and>
              (\<forall>c\<in>set post. isWhiteSpace c)"
proof -
  let ?m = "dropWhile isWhiteSpace s"
  let ?pre = "takeWhile isWhiteSpace s"
  let ?post = "rev (takeWhile isWhiteSpace (rev ?m))"
  have m: "?m = trim s @ ?post"
    unfolding trim_def trimStart_def trimEnd_def by (rule rev_dropWhile_split [symmetric])
  have "s = ?pre @ ?m" by simp
  with m have "s = ?pre @ trim s @ ?post" by simp
  moreover have "\<forall>c\<in>set ?pre. isWhiteSpace c"
    by (auto dest: set_takeWhileD)
  moreover have "\<forall>c\<in>set ?post. isWhiteSpace c"
    by (auto dest: set_takeWhileD)
  ultimately show ?thesis by blast
qed

lemma trim_ends:
  assumes "trim s \<noteq> []"
  shows "\<not> isWhiteSpace (hd (trim s)) \<and> \<not> isWhiteSpace (last (trim s))"
proof
  let ?m = "dropWhile isWhiteSpace s"
  have t: "trim s = rev (dropWhile isWhiteSpace (rev ?m))"
    by (simp add: trim_def trimStart_def trimEnd_def)
  with assms have ne: "dropWhile isWhiteSpace (rev ?m) \<noteq> []" by simp
  then have "\<not> isWhiteSpace (hd (dropWhile isWhiteSpace (rev ?m)))"
    by (rule hd_dropWhile)
  with ne show "\<not> isWhiteSpace (last (trim s))"
    by (simp add: t last_rev)
  have m: "?m = trim s @ rev (takeWhile isWhiteSpace (rev ?m))"
    unfolding t by (rule rev_dropWhile_split [symmetric])
  have mne: "?m \<noteq> []"
    using m assms by (metis Nil_is_append_conv)
  have "hd ?m = hd (trim s)"
    using m assms by (metis hd_append2)
  moreover from mne have "\<not> isWhiteSpace (hd ?m)"
    by (rule hd_dropWhile)
  ultimately show "\<not> isWhiteSpace (hd (trim s))" by simp
qed

subsection \<open>Observations distribute over the trace\<close>

lemma notifications_append: "notifications (xs @ ys) = notifications xs @ notifications ys"
  by (induction xs rule: notifications.induct) simp_all

lemma saveCalls_append: "saveCalls (xs @ ys) = saveCalls xs @ saveCalls ys"
  by (induction xs rule: saveCalls.induct) simp_all

lemma storeCalls_append: "storeCalls (xs @ ys) = storeCalls xs @ storeCalls ys"
  by (induction xs rule: storeCalls.induct) simp_all

subsection \<open>Array search and removal\<close>

lemma indexOfFrom_absent: "x \<notin> set xs \<Longrightarrow> indexOfFrom k xs x = -1"
  by (induction xs arbitrary: k) auto

lemma indexOfFrom_present:
  "x \<in> set xs \<Longrightarrow>
   \<exists>pre post. xs = pre @ x # post \<and> x \<notin> set pre \<and> indexOfFrom k xs x = k + int (length pre)"
proof (induction xs arbitrary: k)
  case Nil
  then show ?case by simp
next
  case (Cons y ys)
  show ?case
  proof (cases "y = x")
    case True
    then have "y # ys = [] @ x # ys \<and> x \<notin> set [] \<and>
        indexOfFrom k (y # ys) x = k + int (length ([]::'a list))"
      by simp
    then show ?thesis by blast
  next
    case False
    with Cons.prems have "x \<in> set ys" by simp
    from Cons.IH [OF this, of "k + 1"] obtain pre post where
      p: "ys = pre @ x # post" "x \<notin> set pre"
         "indexOfFrom (k + 1) ys x = k + 1 + int (length pre)"
      by blast
    from p False have "y # ys = (y # pre) @ x # post \<and> x \<notin> set (y # pre) \<and>
        indexOfFrom k (y # ys) x = k + int (length (y # pre))"
      by simp
    then show ?thesis by blast
  qed
qed

lemma indexOf_nonneg_iff: "0 \<le> indexOf xs x \<longleftrightarrow> x \<in> set xs"
proof
  assume "0 \<le> indexOf xs x"
  then show "x \<in> set xs"
    using indexOfFrom_absent [of x xs 0] by (auto simp: indexOf_def)
next
  assume "x \<in> set xs"
  then show "0 \<le> indexOf xs x"
    using indexOfFrom_present [of x xs 0] by (auto simp: indexOf_def)
qed

lemma splice_one: "splice (pre @ x # post) (int (length pre)) 1 = pre @ post"
  by (simp add: splice_def Let_def nat_add_distrib)

lemma remove1_first: "x \<notin> set pre \<Longrightarrow> remove1 x (pre @ x # post) = pre @ post"
  by (simp add: remove1_append)

text \<open>Splicing out the element that \<open>indexOf\<close> finds removes its first occurrence.\<close>

lemma splice_indexOf:
  assumes "x \<in> set xs"
  shows "splice xs (indexOf xs x) 1 = remove1 x xs"
proof -
  from indexOfFrom_present [OF assms, of 0] obtain pre post where
    p: "xs = pre @ x # post" "x \<notin> set pre" "indexOf xs x = int (length pre)"
    by (auto simp: indexOf_def)
  have "splice xs (indexOf xs x) 1 = pre @ post"
    unfolding p(3) unfolding p(1) by (rule splice_one)
  also have "\<dots> = remove1 x xs"
    using p(1,2) by (simp add: remove1_first)
  finally show ?thesis .
qed

lemma subseq_remove1_self: "subseq (remove1 x xs) xs"
  by (induction xs) auto

subsection \<open>The handlers as updates of the world\<close>

lemma onEditTags_eq:
  "onEditTags d ts w = w\<lparr>drafts := (drafts w)(annotation d \<mapsto> d\<lparr>tags := ts\<rparr>)\<rparr>"
  by (cases d) (simp add: onEditTags_def createDraft_def)

lemma onEditText_eq:
  "onEditText d t w = w\<lparr>drafts := (drafts w)(annotation d \<mapsto> d\<lparr>text := t\<rparr>)\<rparr>"
  by (cases d) (simp add: onEditText_def createDraft_def)

lemma onAddTag_unfold:
  "onAddTag d newTag w =
     (if trim newTag = [] \<or> trim newTag \<in> set (tags d) then (False, w)
      else (True,
            w\<lparr>drafts := (drafts w)(annotation d \<mapsto> d\<lparr>tags := tags d @ [trim newTag]\<rparr>),
              effects := effects w @ [TagsStore (map TagRecord (tags d @ [trim newTag]))]\<rparr>))"
  by (simp add: onAddTag_def Let_def indexOf_nonneg_iff onEditTags_eq emit_def)

lemma onRemoveTag_unfold:
  "onRemoveTag d tag w =
     (if tag \<in> set (tags d)
      then (True, w\<lparr>drafts := (drafts w)(annotation d \<mapsto> d\<lparr>tags := remove1 tag (tags d)\<rparr>)\<rparr>)
      else (False, w))"
  by (simp add: onRemoveTag_def Let_def indexOf_nonneg_iff splice_indexOf onEditTags_eq)

text \<open>\<open>onAddTag\<close> only appends to the trace, and never a save call or a toast.\<close>

lemma onAddTag_effects:
  "\<exists>es. effects (snd (onAddTag d v w)) = effects w @ es \<and> saveCalls es = [] \<and>
        notifications es = []"
  by (simp add: onAddTag_unfold)

text \<open>
  \<open>onSave\<close>: the flush of the tag input, then the save call, then the toast if the
  save is rejected. An empty tag input needs no case of its own: \<open>onAddTag\<close> rejects
  it and leaves the world as it is.
\<close>

lemma onSave_unfold:
  "onSave d a save tagInput w =
     (Fulfilled,
      (case tagInput of None \<Rightarrow> w | Some v \<Rightarrow> snd (onAddTag d v w))
        \<lparr>effects :=
           effects (case tagInput of None \<Rightarrow> w | Some v \<Rightarrow> snd (onAddTag d v w)) @
           AnnotationsSave a #
           (case save a of Fulfilled \<Rightarrow> []
            | Rejected err \<Rightarrow> [ToastError (js ''Saving annotation failed'')])\<rparr>)"
  by (simp add: onSave_def Let_def emit_def truthy_def onAddTag_unfold
        trim_def trimStart_def trimEnd_def
      split: option.splits settled.splits)

text \<open>
  The draft is empty exactly when its text is absent or the empty string and it has no
  tags. A text of white space only is not empty.
\<close>

lemma isEmpty_iff: "isEmpty d \<longleftrightarrow> (text d = None \<or> text d = Some []) \<and> tags d = []"
  by (auto simp: isEmpty_def truthy_def split: option.splits)

lemma isEmpty_whitespace_text: "\<not> isEmpty (exampleDraft (Some (js '' '')) [])"
  by (simp add: isEmpty_iff exampleDraft_def js_def)

subsection \<open>Adding a tag\<close>

text \<open>
  Claim C1. For every candidate string, \<open>onAddTag\<close> works on the candidate trimmed of
  leading and trailing white space. If the trimmed value is empty, the result is
  \<open>False\<close> and the world is unchanged; if the trimmed value is one of the draft's tags
  (the same code units), the result is \<open>False\<close> and the world is unchanged; otherwise
  the result is \<open>True\<close>, the draft stored for the annotation is the old draft with the
  trimmed value appended to its tags, and the whole new tag sequence has been handed, as
  \<^verbatim>\<open>{text: string}\<close> records, to the tag-suggestion service.
\<close>

theorem onAddTag_spec:
  "onAddTag d newTag w =
     (if trim newTag = [] then (False, w)
      else if trim newTag \<in> set (tags d) then (False, w)
      else (True,
            w\<lparr>drafts := (drafts w)(annotation d \<mapsto> d\<lparr>tags := tags d @ [trim newTag]\<rparr>),
              effects := effects w @ [TagsStore (map TagRecord (tags d @ [trim newTag]))]\<rparr>))"
  by (simp add: onAddTag_unfold)

text \<open>
  The scenario of the specification: a candidate of blanks is rejected; \<open>science\<close> is
  added to a draft without tags; a second \<open>science\<close> is rejected.
\<close>

theorem onAddTag_spec_witness:
  "onAddTag (exampleDraft (Some []) []) (js ''   '') (exampleWorld (exampleDraft (Some []) []))
     = (False, exampleWorld (exampleDraft (Some []) [])) \<and>
   fst (onAddTag (exampleDraft (Some []) []) (js '' science '')
          (exampleWorld (exampleDraft (Some []) []))) \<and>
   drafts (snd (onAddTag (exampleDraft (Some []) []) (js '' science '')
          (exampleWorld (exampleDraft (Some []) [])))) 1
     = Some (exampleDraft (Some []) [js ''science'']) \<and>
   effects (snd (onAddTag (exampleDraft (Some []) []) (js '' science '')
          (exampleWorld (exampleDraft (Some []) []))))
     = [TagsStore [TagRecord (js ''science'')]] \<and>
   onAddTag (exampleDraft (Some []) [js ''science'']) (js ''science'')
          (exampleWorld (exampleDraft (Some []) [js ''science'']))
     = (False, exampleWorld (exampleDraft (Some []) [js ''science'']))"
  using onAddTag_spec [of "exampleDraft (Some []) []" "js ''   ''"
          "exampleWorld (exampleDraft (Some []) [])"]
        onAddTag_spec [of "exampleDraft (Some []) []" "js '' science ''"
          "exampleWorld (exampleDraft (Some []) [])"]
        onAddTag_spec [of "exampleDraft (Some []) [js ''science'']" "js ''science''"
          "exampleWorld (exampleDraft (Some []) [js ''science''])"]
  by (simp add: example_defs trim_defs)

text \<open>
  Claim C10. A rejected \<open>onAddTag\<close> (candidate empty after trimming, or already a tag)
  returns \<open>False\<close> and makes no call to the tag-suggestion service; a \<open>False\<close> result
  leaves the whole world, store and trace, as it was; and a call to the tag-suggestion
  service happens only when the result is \<open>True\<close>.
\<close>

theorem onAddTag_rejected_no_effect:
  "(trim newTag = [] \<or> trim newTag \<in> set (tags d) \<longrightarrow>
      \<not> fst (onAddTag d newTag w) \<and>
      storeCalls (effects (snd (onAddTag d newTag w))) = storeCalls (effects w)) \<and>
   (\<not> fst (onAddTag d newTag w) \<longrightarrow> snd (onAddTag d newTag w) = w) \<and>
   (storeCalls (effects (snd (onAddTag d newTag w))) \<noteq> storeCalls (effects w) \<longrightarrow>
      fst (onAddTag d newTag w))"
  by (simp add: onAddTag_unfold)

theorem onAddTag_rejected_no_effect_witness:
  "trim (js ''  '') = [] \<and>
   \<not> fst (onAddTag (exampleDraft None []) (js ''  '') (exampleWorld (exampleDraft None []))) \<and>
   snd (onAddTag (exampleDraft None []) (js ''  '') (exampleWorld (exampleDraft None [])))
     = exampleWorld (exampleDraft None []) \<and>
   trim (js ''b'') \<in> set (tags (exampleDraft None [js ''a'', js ''b''])) \<and>
   \<not> fst (onAddTag (exampleDraft None [js ''a'', js ''b'']) (js ''b'')
            (exampleWorld (exampleDraft None [js ''a'', js ''b'']))) \<and>
   snd (onAddTag (exampleDraft None [js ''a'', js ''b'']) (js ''b'')
            (exampleWorld (exampleDraft None [js ''a'', js ''b''])))
     = exampleWorld (exampleDraft None [js ''a'', js ''b'']) \<and>
   storeCalls (effects (snd (onAddTag (exampleDraft None []) (js ''b'')
            (exampleWorld (exampleDraft None [])))))
     \<noteq> storeCalls (effects (exampleWorld (exampleDraft None []))) \<and>
   fst (onAddTag (exampleDraft None []) (js ''b'') (exampleWorld (exampleDraft None [])))"
  using onAddTag_rejected_no_effect [of "js ''  ''" "exampleDraft None []"
          "exampleWorld (exampleDraft None [])"]
        onAddTag_rejected_no_effect [of "js ''b''" "exampleDraft None [js ''a'', js ''b'']"
          "exampleWorld (exampleDraft None [js ''a'', js ''b''])"]
        onAddTag_rejected_no_effect [of "js ''b''" "exampleDraft None []"
          "exampleWorld (exampleDraft None [])"]
  by (simp add: example_defs trim_defs onAddTag_unfold)

subsection \<open>Removing a tag\<close>

text \<open>
  Claim C4. For every string given to \<open>onRemoveTag\<close>: if no tag of the draft is equal
  to it, the result is \<open>False\<close> and the world is unchanged; if some tag is equal to it,
  the result is \<open>True\<close> and the draft stored for the annotation is the old draft with
  the first such tag removed, the tags before and after it staying in their order.
\<close>

theorem onRemoveTag_spec:
  "(tag \<notin> set (tags d) \<longrightarrow> onRemoveTag d tag w = (False, w)) \<and>
   (tag \<in> set (tags d) \<longrightarrow>
      onRemoveTag d tag w =
        (True, w\<lparr>drafts := (drafts w)(annotation d \<mapsto> d\<lparr>tags := remove1 tag (tags d)\<rparr>)\<rparr>) \<and>
      (\<exists>pre post. tags d = pre @ tag # post \<and> tag \<notin> set pre \<and>
                  remove1 tag (tags d) = pre @ post))"
proof (intro conjI impI)
  assume "tag \<notin> set (tags d)"
  then show "onRemoveTag d tag w = (False, w)"
    by (simp add: onRemoveTag_unfold)
next
  assume "tag \<in> set (tags d)"
  then show "onRemoveTag d tag w =
        (True, w\<lparr>drafts := (drafts w)(annotation d \<mapsto> d\<lparr>tags := remove1 tag (tags d)\<rparr>)\<rparr>)"
    by (simp add: onRemoveTag_unfold)
next
  assume "tag \<in> set (tags d)"
  then obtain pre post where "tags d = pre @ tag # post" "tag \<notin> set pre"
    using split_list_first [of tag "tags d"] by blast
  then show "\<exists>pre post. tags d = pre @ tag # post \<and> tag \<notin> set pre \<and>
                  remove1 tag (tags d) = pre @ post"
    using remove1_first by fastforce
qed

text \<open>
  The example of the specification: from \<open>a, b, c\<close>, removing \<open>z\<close> is rejected and
  removing \<open>b\<close> leaves \<open>a, c\<close>.
\<close>

theorem onRemoveTag_spec_witness:
  "onRemoveTag (exampleDraft None [js ''a'', js ''b'', js ''c'']) (js ''z'')
       (exampleWorld (exampleDraft None [js ''a'', js ''b'', js ''c'']))
     = (False, exampleWorld (exampleDraft None [js ''a'', js ''b'', js ''c''])) \<and>
   fst (onRemoveTag (exampleDraft None [js ''a'', js ''b'', js ''c'']) (js ''b'')
       (exampleWorld (exampleDraft None [js ''a'', js ''b'', js ''c'']))) \<and>
   drafts (snd (onRemoveTag (exampleDraft None [js ''a'', js ''b'', js ''c'']) (js ''b'')
       (exampleWorld (exampleDraft None [js ''a'', js ''b'', js ''c''])))) 1
     = Some (exampleDraft None [js ''a'', js ''c''])"
  using onRemoveTag_spec [of "js ''z''" "exampleDraft None [js ''a'', js ''b'', js ''c'']"
          "exampleWorld (exampleDraft None [js ''a'', js ''b'', js ''c''])"]
        onRemoveTag_spec [of "js ''b''" "exampleDraft None [js ''a'', js ''b'', js ''c'']"
          "exampleWorld (exampleDraft None [js ''a'', js ''b'', js ''c''])"]
  by (simp add: example_defs js_def)

subsection \<open>Distinct tags in insertion order\<close>

text \<open>
  Claim C7. When the handlers close over the draft that the store holds and its tags are
  pairwise distinct, the draft in the store after \<open>onAddTag\<close> or \<open>onRemoveTag\<close> has
  pairwise distinct tags again, and the tags that remain keep their relative order:
  after \<open>onAddTag\<close> the old sequence is a prefix of the new one, after \<open>onRemoveTag\<close>
  the new sequence is a subsequence of the old one.
\<close>

theorem tags_distinct_order_preserved:
  assumes "drafts w (annotation d) = Some d" and "distinct (tags d)"
  shows "(\<exists>d'. drafts (snd (onAddTag d t w)) (annotation d) = Some d' \<and>
               distinct (tags d') \<and> prefix (tags d) (tags d')) \<and>
         (\<exists>d'. drafts (snd (onRemoveTag d t w)) (annotation d) = Some d' \<and>
               distinct (tags d') \<and> subseq (tags d') (tags d))"
proof
  show "\<exists>d'. drafts (snd (onAddTag d t w)) (annotation d) = Some d' \<and>
               distinct (tags d') \<and> prefix (tags d) (tags d')"
    using assms by (simp add: onAddTag_unfold)
next
  have "subseq (remove1 t (tags d)) (tags d)"
    by (rule subseq_remove1_self)
  then show "\<exists>d'. drafts (snd (onRemoveTag d t w)) (annotation d) = Some d' \<and>
               distinct (tags d') \<and> subseq (tags d') (tags d)"
    using assms by (simp add: onRemoveTag_unfold)
qed

theorem tags_distinct_order_preserved_witness:
  "drafts (exampleWorld (exampleDraft None [js ''a'', js ''b'', js ''c'']))
       (annotation (exampleDraft None [js ''a'', js ''b'', js ''c'']))
     = Some (exampleDraft None [js ''a'', js ''b'', js ''c'']) \<and>
   distinct (tags (exampleDraft None [js ''a'', js ''b'', js ''c''])) \<and>
   (\<exists>d'. drafts (snd (onAddTag (exampleDraft None [js ''a'', js ''b'', js ''c'']) (js ''b'')
                  (exampleWorld (exampleDraft None [js ''a'', js ''b'', js ''c'']))))
            (annotation (exampleDraft None [js ''a'', js ''b'', js ''c''])) = Some d' \<and>
         distinct (tags d') \<and>
         prefix (tags (exampleDraft None [js ''a'', js ''b'', js ''c''])) (tags d')) \<and>
   (\<exists>d'. drafts (snd (onRemoveTag (exampleDraft None [js ''a'', js ''b'', js ''c'']) (js ''b'')
                  (exampleWorld (exampleDraft None [js ''a'', js ''b'', js ''c'']))))
            (annotation (exampleDraft None [js ''a'', js ''b'', js ''c''])) = Some d' \<and>
         distinct (tags d') \<and>
         subseq (tags d') (tags (exampleDraft None [js ''a'', js ''b'', js ''c''])))"
proof -
  have h1: "drafts (exampleWorld (exampleDraft None [js ''a'', js ''b'', js ''c'']))
       (annotation (exampleDraft None [js ''a'', js ''b'', js ''c'']))
     = Some (exampleDraft None [js ''a'', js ''b'', js ''c''])"
    by (simp add: example_defs)
  have h2: "distinct (tags (exampleDraft None [js ''a'', js ''b'', js ''c'']))"
    by (simp add: example_defs js_def)
  show ?thesis
    using h1 h2 tags_distinct_order_preserved [OF h1 h2, of "js ''b''"] by blast
qed

subsection \<open>Editing one field\<close>

text \<open>
  Claim C9. \<open>onEditText\<close> replaces the draft of the annotation with one that differs
  from the old draft in its text only: tags, privacy flag and annotation are the old
  ones. \<open>onEditTags\<close> replaces it with one that differs in its tags only: text, privacy
  flag and annotation are the old ones.
\<close>

theorem edit_frame:
  "drafts (onEditText d t w) (annotation d) = Some (d\<lparr>text := t\<rparr>) \<and>
   tags (d\<lparr>text := t\<rparr>) = tags d \<and> isPrivate (d\<lparr>text := t\<rparr>) = isPrivate d \<and>
   annotation (d\<lparr>text := t\<rparr>) = annotation d \<and>
   drafts (onEditTags d ts w) (annotation d) = Some (d\<lparr>tags := ts\<rparr>) \<and>
   text (d\<lparr>tags := ts\<rparr>) = text d \<and> isPrivate (d\<lparr>tags := ts\<rparr>) = isPrivate d \<and>
   annotation (d\<lparr>tags := ts\<rparr>) = annotation d"
  by (simp add: onEditText_eq onEditTags_eq)

subsection \<open>Saving\<close>

text \<open>
  Claim C2, as stated, fails: when the save is rejected while the tag input holds text
  that \<open>onAddTag\<close> accepts, the draft's tags after \<open>onSave\<close> are not the tags before
  it. Here the draft has no tags, the tag input holds \<open>x\<close>, and the draft ends with the
  tag \<open>x\<close>.
\<close>

theorem onSave_rejected_draft_unchanged_counterexample:
  "rejectingSave exampleAnnotation = Rejected (js ''offline'') \<and>
   map_option tags (drafts (exampleWorld (exampleDraft None [])) 1) = Some [] \<and>
   map_option tags
     (drafts (snd (onSave (exampleDraft None []) exampleAnnotation rejectingSave (Some (js ''x''))
                     (exampleWorld (exampleDraft None [])))) 1) = Some [js ''x''] \<and>
   map_option tags
     (drafts (snd (onSave (exampleDraft None []) exampleAnnotation rejectingSave (Some (js ''x''))
                     (exampleWorld (exampleDraft None [])))) 1)
     \<noteq> map_option tags (drafts (exampleWorld (exampleDraft None [])) 1)"
  by (simp add: onSave_unfold onAddTag_unfold example_defs env_defs trim_defs)

text \<open>
  Claim C2, amended. When the save of the annotation is rejected, \<open>onSave\<close> emits
  exactly one error notification, with the message \<open>Saving annotation failed\<close>, and its
  own promise is fulfilled: the failure is not rethrown. The draft's text is the same
  before and after. Its tags are the same before and after unless the tag input held
  text that \<open>onAddTag\<close> accepts (not empty after trimming and not yet a tag): then the
  trimmed text has been appended to the tags by the flush that precedes the save.
\<close>

theorem onSave_rejected:
  assumes "save a = Rejected err" and "drafts w (annotation d) = Some d"
  shows "fst (onSave d a save tagInput w) = Fulfilled \<and>
         notifications (effects (snd (onSave d a save tagInput w))) =
           notifications (effects w) @ [js ''Saving annotation failed''] \<and>
         (\<exists>d'. drafts (snd (onSave d a save tagInput w)) (annotation d) = Some d' \<and>
               text d' = text d \<and>
               tags d' =
                 (case tagInput of
                    None \<Rightarrow> tags d
                  | Some v \<Rightarrow> if trim v = [] \<or> trim v \<in> set (tags d) then tags d
                              else tags d @ [trim v]))"
proof (intro conjI)
  show "fst (onSave d a save tagInput w) = Fulfilled"
    by (simp add: onSave_unfold)
  obtain es where es: "effects (case tagInput of None \<Rightarrow> w | Some v \<Rightarrow> snd (onAddTag d v w))
      = effects w @ es" "notifications es = []"
    using onAddTag_effects [of d _ w] by (cases tagInput) auto
  show "notifications (effects (snd (onSave d a save tagInput w))) =
           notifications (effects w) @ [js ''Saving annotation failed'']"
    unfolding onSave_unfold using es assms(1) by (simp add: notifications_append)
  show "\<exists>d'. drafts (snd (onSave d a save tagInput w)) (annotation d) = Some d' \<and>
               text d' = text d \<and>
               tags d' =
                 (case tagInput of
                    None \<Rightarrow> tags d
                  | Some v \<Rightarrow> if trim v = [] \<or> trim v \<in> set (tags d) then tags d
                              else tags d @ [trim v])"
    unfolding onSave_unfold using assms(2)
    by (cases tagInput) (simp_all add: onAddTag_unfold)
qed

text \<open>
  A rejected save of a draft with text \<open>hello\<close> and tag \<open>a\<close>: with no tag input the
  store is unchanged and the trace is the save call and one toast; with \<open>x\<close> in the tag
  input the tags end as \<open>a, x\<close>.
\<close>

theorem onSave_rejected_witness:
  "rejectingSave exampleAnnotation = Rejected (js ''offline'') \<and>
   drafts (exampleWorld (exampleDraft (Some (js ''hello'')) [js ''a'']))
     (annotation (exampleDraft (Some (js ''hello'')) [js ''a'']))
     = Some (exampleDraft (Some (js ''hello'')) [js ''a'']) \<and>
   fst (onSave (exampleDraft (Some (js ''hello'')) [js ''a'']) exampleAnnotation rejectingSave None
          (exampleWorld (exampleDraft (Some (js ''hello'')) [js ''a''])))
     = Fulfilled \<and>
   effects (snd (onSave (exampleDraft (Some (js ''hello'')) [js ''a'']) exampleAnnotation
          rejectingSave None (exampleWorld (exampleDraft (Some (js ''hello'')) [js ''a'']))))
     = [AnnotationsSave exampleAnnotation, ToastError (js ''Saving annotation failed'')] \<and>
   drafts (snd (onSave (exampleDraft (Some (js ''hello'')) [js ''a'']) exampleAnnotation
          rejectingSave None (exampleWorld (exampleDraft (Some (js ''hello'')) [js ''a'']))))
     = drafts (exampleWorld (exampleDraft (Some (js ''hello'')) [js ''a''])) \<and>
   map_option tags
     (drafts (snd (onSave (exampleDraft (Some (js ''hello'')) [js ''a'']) exampleAnnotation
          rejectingSave (Some (js ''x''))
          (exampleWorld (exampleDraft (Some (js ''hello'')) [js ''a''])))) 1)
     = Some [js ''a'', js ''x'']"
proof -
  have h1: "rejectingSave exampleAnnotation = Rejected (js ''offline'')"
    by (simp add: env_defs)
  have h2: "drafts (exampleWorld (exampleDraft (Some (js ''hello'')) [js ''a'']))
     (annotation (exampleDraft (Some (js ''hello'')) [js ''a'']))
     = Some (exampleDraft (Some (js ''hello'')) [js ''a''])"
    by (simp add: example_defs)
  show ?thesis
    using h1 h2
      onSave_rejected [where save = rejectingSave and a = exampleAnnotation
        and err = "js ''offline''" and tagInput = None
        and d = "exampleDraft (Some (js ''hello'')) [js ''a'']"
        and w = "exampleWorld (exampleDraft (Some (js ''hello'')) [js ''a''])", OF h1 h2]
      onSave_rejected [where save = rejectingSave and a = exampleAnnotation
        and err = "js ''offline''" and tagInput = "Some (js ''x'')"
        and d = "exampleDraft (Some (js ''hello'')) [js ''a'']"
        and w = "exampleWorld (exampleDraft (Some (js ''hello'')) [js ''a''])", OF h1 h2]
    by (simp add: onSave_unfold onAddTag_unfold example_defs trim_defs)
qed

text \<open>
  Claim C6. When the tag input holds text, \<open>onSave\<close> first runs \<open>onAddTag\<close> on it: the
  trace and the store of \<open>onSave\<close> start from those that \<open>onAddTag\<close> leaves. Whatever
  \<open>onAddTag\<close> returned, the next call is the save of the annotation, and it is the
  only save call.
\<close>

theorem onSave_flush_then_save:
  assumes "v \<noteq> []"
  shows "\<exists>es. effects (snd (onSave d a save (Some v) w)) =
                effects (snd (onAddTag d v w)) @ AnnotationsSave a # es \<and>
              saveCalls es = [] \<and>
              drafts (snd (onSave d a save (Some v) w)) = drafts (snd (onAddTag d v w)) \<and>
              saveCalls (effects (snd (onSave d a save (Some v) w))) =
                saveCalls (effects w) @ [a]"
proof -
  obtain es where es: "effects (snd (onAddTag d v w)) = effects w @ es" "saveCalls es = []"
    using onAddTag_effects [of d v w] by auto
  show ?thesis
    unfolding onSave_unfold using es
    by (cases "save a") (simp_all add: saveCalls_append)
qed

text \<open>
  The tag input holds \<open>b\<close>. On a draft with tags \<open>a, b\<close> the flush is rejected and the
  save is called; on a draft without tags the flush adds \<open>b\<close> and the save is called.
\<close>

theorem onSave_flush_then_save_witness:
  "js ''b'' \<noteq> [] \<and>
   \<not> fst (onAddTag (exampleDraft None [js ''a'', js ''b'']) (js ''b'')
            (exampleWorld (exampleDraft None [js ''a'', js ''b'']))) \<and>
   saveCalls (effects (snd (onSave (exampleDraft None [js ''a'', js ''b'']) exampleAnnotation
            fulfillingSave (Some (js ''b''))
            (exampleWorld (exampleDraft None [js ''a'', js ''b''])))))
     = [exampleAnnotation] \<and>
   fst (onAddTag (exampleDraft None []) (js ''b'') (exampleWorld (exampleDraft None []))) \<and>
   effects (snd (onSave (exampleDraft None []) exampleAnnotation
            fulfillingSave (Some (js ''b'')) (exampleWorld (exampleDraft None []))))
     = [TagsStore [TagRecord (js ''b'')], AnnotationsSave exampleAnnotation]"
proof -
  have h: "js ''b'' \<noteq> []"
    by (simp add: js_def)
  show ?thesis
    using h
      onSave_flush_then_save [OF h, of "exampleDraft None [js ''a'', js ''b'']" exampleAnnotation
        fulfillingSave "exampleWorld (exampleDraft None [js ''a'', js ''b''])"]
      onSave_flush_then_save [OF h, of "exampleDraft None []" exampleAnnotation
        fulfillingSave "exampleWorld (exampleDraft None [])"]
    by (simp add: onSave_unfold onAddTag_unfold example_defs env_defs trim_defs)
qed

subsection \<open>The keyboard shortcut\<close>

text \<open>
  Claim C5, as stated, fails: a text of white space only is blank, but it is a string of
  at least one code unit, so \<^verbatim>\<open>!text\<close> is false and the draft is not empty for the
  code. Here the draft has the text of one space and no tags; on Ctrl+Enter
  \<open>onKeyDown\<close> stops the event and makes the save call.
\<close>

theorem onKeyDown_blank_text_counterexample:
  "text (exampleDraft (Some (js '' '')) []) = Some (js '' '') \<and>
   trim (js '' '') = [] \<and>
   tags (exampleDraft (Some (js '' '')) []) = [] \<and>
   effects (onKeyDown (exampleDraft (Some (js '' '')) []) exampleAnnotation fulfillingSave None
              identityKeyName ctrlEnter (exampleWorld (exampleDraft (Some (js '' '')) [])))
     = [StopPropagation, PreventDefault, AnnotationsSave exampleAnnotation] \<and>
   onKeyDown (exampleDraft (Some (js '' '')) []) exampleAnnotation fulfillingSave None
              identityKeyName ctrlEnter (exampleWorld (exampleDraft (Some (js '' '')) []))
     \<noteq> exampleWorld (exampleDraft (Some (js '' '')) [])"
  by (simp add: onKeyDown_def isEmpty_iff Let_def emit_def onSave_unfold example_defs env_defs
        trim_defs)

text \<open>
  Claim C5, amended. When the draft is empty, where empty means that its text is absent
  or the empty string and that it has no tags, \<open>onKeyDown\<close> leaves the world as it is,
  whatever the key event: no save call, and neither propagation nor default handling of
  the event is stopped.
\<close>

theorem onKeyDown_empty_draft_noop:
  assumes "text d = None \<or> text d = Some []" and "tags d = []"
  shows "onKeyDown d a save tagInput normalizeKeyName event w = w"
  using assms by (simp add: onKeyDown_def isEmpty_iff)

theorem onKeyDown_empty_draft_noop_witness:
  "(text (exampleDraft (Some []) []) = None \<or> text (exampleDraft (Some []) []) = Some []) \<and>
   tags (exampleDraft (Some []) []) = [] \<and>
   onKeyDown (exampleDraft (Some []) []) exampleAnnotation fulfillingSave None identityKeyName
       ctrlEnter (exampleWorld (exampleDraft (Some []) []))
     = exampleWorld (exampleDraft (Some []) [])"
proof -
  have h1: "text (exampleDraft (Some []) []) = None \<or> text (exampleDraft (Some []) []) = Some []"
    by (simp add: example_defs)
  have h2: "tags (exampleDraft (Some []) []) = []"
    by (simp add: example_defs)
  show ?thesis
    using h1 h2 onKeyDown_empty_draft_noop [OF h1 h2] by simp
qed

text \<open>
  Claim C3. On a draft that is not empty: when the normalized key is \<open>Enter\<close> and the
  meta or the ctrl modifier is down, \<open>onKeyDown\<close> stops the propagation of the event,
  prevents its default handling, and then runs \<open>onSave\<close> once, which makes exactly one
  save call; for every other key combination it leaves the world as it is.
\<close>

theorem onKeyDown_shortcut:
  assumes "\<not> ((text d = None \<or> text d = Some []) \<and> tags d = [])"
  shows "(normalizeKeyName (key event) = js ''Enter'' \<and> (metaKey event \<or> ctrlKey event) \<longrightarrow>
            onKeyDown d a save tagInput normalizeKeyName event w =
              snd (onSave d a save tagInput
                     (w\<lparr>effects := effects w @ [StopPropagation, PreventDefault]\<rparr>)) \<and>
            (\<exists>es. effects (onKeyDown d a save tagInput normalizeKeyName event w) =
                    effects w @ StopPropagation # PreventDefault # es) \<and>
            saveCalls (effects (onKeyDown d a save tagInput normalizeKeyName event w)) =
              saveCalls (effects w) @ [a]) \<and>
         (\<not> (normalizeKeyName (key event) = js ''Enter'' \<and> (metaKey event \<or> ctrlKey event)) \<longrightarrow>
            onKeyDown d a save tagInput normalizeKeyName event w = w)"
proof (intro conjI impI)
  assume k: "normalizeKeyName (key event) = js ''Enter'' \<and> (metaKey event \<or> ctrlKey event)"
  let ?w2 = "w\<lparr>effects := effects w @ [StopPropagation, PreventDefault]\<rparr>"
  from assms have ne: "\<not> isEmpty d"
    unfolding isEmpty_iff .
  from ne k show run: "onKeyDown d a save tagInput normalizeKeyName event w =
      snd (onSave d a save tagInput ?w2)"
    by (simp add: onKeyDown_def Let_def emit_def)
  obtain es where es: "effects (case tagInput of None \<Rightarrow> ?w2 | Some v \<Rightarrow> snd (onAddTag d v ?w2))
      = effects ?w2 @ es" "saveCalls es = []"
    using onAddTag_effects [of d _ ?w2] by (cases tagInput) auto
  show "\<exists>es. effects (onKeyDown d a save tagInput normalizeKeyName event w) =
                    effects w @ StopPropagation # PreventDefault # es"
    unfolding run onSave_unfold using es(1) by simp
  show "saveCalls (effects (onKeyDown d a save tagInput normalizeKeyName event w)) =
              saveCalls (effects w) @ [a]"
    unfolding run onSave_unfold using es
    by (simp add: saveCalls_append split: settled.splits)
next
  assume "\<not> (normalizeKeyName (key event) = js ''Enter'' \<and> (metaKey event \<or> ctrlKey event))"
  then show "onKeyDown d a save tagInput normalizeKeyName event w = w"
    by (auto simp: onKeyDown_def Let_def)
qed

text \<open>
  The example of the specification: on a draft with text \<open>hello\<close>, Ctrl+Enter stops the
  event and makes one save call; Enter alone does nothing.
\<close>

theorem onKeyDown_shortcut_witness:
  "\<not> ((text (exampleDraft (Some (js ''hello'')) []) = None \<or>
        text (exampleDraft (Some (js ''hello'')) []) = Some []) \<and>
       tags (exampleDraft (Some (js ''hello'')) []) = []) \<and>
   effects (onKeyDown (exampleDraft (Some (js ''hello'')) []) exampleAnnotation fulfillingSave
              None identityKeyName ctrlEnter (exampleWorld (exampleDraft (Some (js ''hello'')) [])))
     = [StopPropagation, PreventDefault, AnnotationsSave exampleAnnotation] \<and>
   onKeyDown (exampleDraft (Some (js ''hello'')) []) exampleAnnotation fulfillingSave
              None identityKeyName plainEnter (exampleWorld (exampleDraft (Some (js ''hello'')) []))
     = exampleWorld (exampleDraft (Some (js ''hello'')) [])"
proof -
  have h: "\<not> ((text (exampleDraft (Some (js ''hello'')) []) = None \<or>
        text (exampleDraft (Some (js ''hello'')) []) = Some []) \<and>
       tags (exampleDraft (Some (js ''hello'')) []) = [])"
    by (simp add: example_defs js_def)
  show ?thesis
    using h
      onKeyDown_shortcut [OF h, of identityKeyName ctrlEnter exampleAnnotation fulfillingSave None
        "exampleWorld (exampleDraft (Some (js ''hello'')) [])"]
      onKeyDown_shortcut [OF h, of identityKeyName plainEnter exampleAnnotation fulfillingSave None
        "exampleWorld (exampleDraft (Some (js ''hello'')) [])"]
    by (simp add: env_defs onSave_unfold exampleWorld_def)
qed

subsection \<open>Rendering without a draft\<close>

text \<open>
  Claim C8. When the store holds no draft for the annotation, the component renders
  nothing: its result is the absent value. The component has no failing branch, so the
  missing draft is not an error.
\<close>

theorem AnnotationEditor_no_draft:
  assumes "getDraft w a = None"
  shows "AnnotationEditor a w = None"
  using assms by (simp add: AnnotationEditor_def Let_def)

theorem AnnotationEditor_no_draft_witness:
  "getDraft emptyWorld exampleAnnotation = None \<and>
   AnnotationEditor exampleAnnotation emptyWorld = None"
proof -
  have h: "getDraft emptyWorld exampleAnnotation = None"
    by (simp add: getDraft_def env_defs)
  show ?thesis
    using h AnnotationEditor_no_draft [OF h] by simp
qed

end
